theory Spec2Isabelle
  imports Main "HOL-Library.Word"
begin

section \<open>Data model\<close>

text \<open>
  The Go types of the two packages: \<open>common.Address\<close> is 20 bytes, \<open>common.Hash\<close> is
  32 bytes, \<open>uint64\<close> is a 64-bit word (addition wraps), \<open>*big.Int\<close> is an unbounded
  integer. A pointer that may be nil is an \<open>option\<close>. A Go map is a partial function;
  the maps of this development are allocated maps (\<open>genesis.Alloc\<close>, \<open>accTxInfoMap\<close>
  made by \<open>NewHiveRPCEngineClient\<close>), and \<open>genesis.Config\<close> is a non-nil pointer.
\<close>

type_synonym address = "160 word"
type_synonym hash = "256 word"
type_synonym uint64 = "64 word"
type_synonym bytes = "8 word list"

text \<open>
  The error values of the code. The constructors of the first group are the errors the
  code itself builds (\<open>fmt.Errorf\<close>, \<open>errors.Wrap\<close>), carrying the data their message
  is formatted from; \<open>LibError\<close> is an error handed back by a library call (transport,
  JSON decoding, token signing, transaction encoding).
\<close>

datatype error =
    ErrRequiresShanghai
  | ErrMustBeAfterShanghai
  | ErrReusedAddress address
  | ErrNoPreviousNonce address
  | ErrStorageAtIndex error nat
  | LibError string

text \<open>A call either returns or panics.\<close>

datatype 'a outcome = Panicked error | Returned 'a

subsection \<open>Genesis (package cancun)\<close>

text \<open>
  \<open>core.GenesisAccount\<close> with the fields the code writes; its other fields
  (\<open>Storage\<close>, \<open>PrivateKey\<close>) stay at their zero value in every account built here.
\<close>

record GenesisAccount =
  Code :: bytes
  Balance :: int
  Nonce :: uint64

record ChainConfig =
  ShanghaiTime :: "uint64 option"
  CancunTime :: "uint64 option"

record Genesis =
  Config :: ChainConfig
  Timestamp :: uint64
  BlobGasUsed :: "uint64 option"
  ExcessBlobGas :: "uint64 option"
  Alloc :: "address \<rightharpoonup> GenesisAccount"

definition BEACON_ROOTS_CODE :: bytes where
  "BEACON_ROOTS_CODE =
    [0x33, 0x73, 0xFF, 0xFF, 0xFF, 0xFF, 0xFF, 0xFF, 0xFF, 0xFF, 0xFF, 0xFF,
     0xFF, 0xFF, 0xFF, 0xFF, 0xFF, 0xFF, 0xFF, 0xFF, 0xFF, 0xFE, 0x14, 0x60,
     0x4D, 0x57, 0x60, 0x20, 0x36, 0x14, 0x60, 0x24, 0x57, 0x5F, 0x5F, 0xFD,
     0x5B, 0x5F, 0x35, 0x80, 0x15, 0x60, 0x49, 0x57, 0x62, 0x00, 0x1F, 0xFF,
     0x81, 0x06, 0x90, 0x81, 0x54, 0x14, 0x60, 0x3C, 0x57, 0x5F, 0x5F, 0xFD,
     0x5B, 0x62, 0x00, 0x1F, 0xFF, 0x01, 0x54, 0x5F, 0x52, 0x60, 0x20, 0x5F,
     0xF3, 0x5B, 0x5F, 0x5F, 0xFD, 0x5B, 0x62, 0x00, 0x1F, 0xFF, 0x42, 0x06,
     0x42, 0x81, 0x55, 0x5F, 0x35, 0x90, 0x62, 0x00, 0x1F, 0xFF, 0x01, 0x55,
     0x00]"

text \<open>
  \<open>ConfigGenesis\<close>. The genesis is mutated through its pointer, so the model returns
  the genesis as the call leaves it next to the returned error (\<open>None\<close> is nil).
  \<open>BEACON_ROOTS_ADDRESS\<close> is a package constant declared outside this file: a parameter.
\<close>

definition ConfigGenesis ::
  "address \<Rightarrow> Genesis \<Rightarrow> uint64 \<Rightarrow> error option \<times> Genesis" where
  "ConfigGenesis BEACON_ROOTS_ADDRESS genesis forkTimestamp =
    (case ShanghaiTime (Config genesis) of
       None \<Rightarrow> (Some ErrRequiresShanghai, genesis)
     | Some shanghai \<Rightarrow>
        (let g1 = genesis\<lparr>Config := (Config genesis)\<lparr>CancunTime := Some forkTimestamp\<rparr>\<rparr>
         in if shanghai > forkTimestamp then (Some ErrMustBeAfterShanghai, g1)
            else
              (let g2 = (if Timestamp g1 \<ge> forkTimestamp
                         then (let g' = (if BlobGasUsed g1 = None
                                         then g1\<lparr>BlobGasUsed := Some 0\<rparr> else g1)
                               in if ExcessBlobGas g' = None
                                  then g'\<lparr>ExcessBlobGas := Some 0\<rparr> else g')
                         else g1);
                   g3 = g2\<lparr>Alloc := (Alloc g2)(BEACON_ROOTS_ADDRESS \<mapsto>
                           \<lparr>Code = BEACON_ROOTS_CODE, Balance = 0, Nonce = 1\<rparr>)\<rparr>
               in (None, g3))))"

text \<open>
  \<open>common.BigToAddress\<close>: the big-endian bytes of the absolute value of the integer,
  cropped from the left to 20 bytes.
\<close>

definition BigToAddress :: "int \<Rightarrow> address" where
  "BigToAddress b = word_of_int \<bar>b\<bar>"

definition datahashCode :: bytes where
  "datahashCode =
    [0x5F, 0x80, 0x49, 0x55,
     0x60, 0x01, 0x80, 0x49, 0x55,
     0x60, 0x02, 0x80, 0x49, 0x55,
     0x60, 0x03, 0x80, 0x49, 0x55]"

text \<open>
  The loop of \<open>ConfigTestAccounts\<close> from index \<open>i\<close> on. \<open>DATAHASH_ADDRESS_COUNT\<close> and
  \<open>DATAHASH_START_ADDRESS\<close> are package constants declared outside this file: parameters.
  A panic leaves the accounts already added in the genesis.
\<close>

function datahash_loop ::
  "int \<Rightarrow> int \<Rightarrow> int \<Rightarrow> Genesis \<Rightarrow> (error option) outcome \<times> Genesis" where
  "datahash_loop DATAHASH_ADDRESS_COUNT DATAHASH_START_ADDRESS i genesis =
    (if i < DATAHASH_ADDRESS_COUNT then
       (let addr = BigToAddress (DATAHASH_START_ADDRESS + i) in
        if Alloc genesis addr \<noteq> None then (Panicked (ErrReusedAddress addr), genesis)
        else datahash_loop DATAHASH_ADDRESS_COUNT DATAHASH_START_ADDRESS (i + 1)
               (genesis\<lparr>Alloc := (Alloc genesis)(addr \<mapsto>
                  \<lparr>Code = datahashCode, Balance = 1, Nonce = 0\<rparr>)\<rparr>))
     else (Returned None, genesis))"
  by pat_completeness auto
termination
  by (relation "measure (\<lambda>(c, s, i, g). nat (c - i))") auto

declare datahash_loop.simps [simp del]

definition ConfigTestAccounts ::
  "int \<Rightarrow> int \<Rightarrow> Genesis \<Rightarrow> (error option) outcome \<times> Genesis" where
  "ConfigTestAccounts DATAHASH_ADDRESS_COUNT DATAHASH_START_ADDRESS genesis =
     datahash_loop DATAHASH_ADDRESS_COUNT DATAHASH_START_ADDRESS 0 genesis"

subsection \<open>Formatting helpers\<close>

text \<open>
  \<open>%d\<close> of \<open>fmt.Sprintf\<close> on a Go \<open>int\<close>, and the digits of the lower-case
  hexadecimal encodings; every index into a digit table is within the table.
\<close>

function dec_nat :: "nat \<Rightarrow> string" where
  "dec_nat n = (if n < 10 then [''0123456789'' ! n]
                else dec_nat (n div 10) @ [''0123456789'' ! (n mod 10)])"
  by pat_completeness auto
termination
  by (relation "measure id") auto

declare dec_nat.simps [simp del]

definition itoa :: "int \<Rightarrow> string" where
  "itoa v = (if v < 0 then ''-'' @ dec_nat (nat (- v)) else dec_nat (nat v))"

definition hex_digit :: "nat \<Rightarrow> char" where
  "hex_digit n = ''0123456789abcdef'' ! (n mod 16)"

function hex_nat :: "nat \<Rightarrow> string" where
  "hex_nat n = (if n < 16 then [hex_digit n]
                else hex_nat (n div 16) @ [hex_digit (n mod 16)])"
  by pat_completeness auto
termination
  by (relation "measure id") auto

declare hex_nat.simps [simp del]

text \<open>\<open>hexutil.EncodeBig\<close> and \<open>hexutil.Encode\<close>.\<close>

definition EncodeBig :: "int \<Rightarrow> string" where
  "EncodeBig b = (if b = 0 then ''0x0''
                  else if b > 0 then ''0x'' @ hex_nat (nat b)
                  else ''-0x'' @ hex_nat (nat (- b)))"

definition Encode :: "bytes \<Rightarrow> string" where
  "Encode data =
     ''0x'' @ concat (map (\<lambda>w. [hex_digit (unat w div 16), hex_digit (unat w mod 16)]) data)"

subsection \<open>Engine client (package hive\_rpc)\<close>

text \<open>
  The arguments of an RPC call are Go values passed as \<open>interface{}\<close>: a universal type
  of the values this file passes. \<open>GPtr\<close> is a pointer argument, \<open>GPtr None\<close> a nil one;
  \<open>GStruct\<close> is a value of a struct type declared outside this file, kept by its encoding.
\<close>

type_synonym raw = string

datatype gvalue =
    GPtr "gvalue option"
  | GHash hash
  | GHashes "hash list"
  | GAddress address
  | GString string
  | GPayloadID "64 word"
  | GStruct raw

text \<open>
  What a call sends to the network, in order: a request on the engine connection \<open>ec.c\<close>
  (with the Authorization header the connection carries at that moment), a batch on the
  eth connection \<open>ec.cEth\<close>, the head lookup \<open>ec.HeaderByNumber(ctx, nil)\<close>, and the
  nonce query \<open>ec.NonceAt(ctx, account, number)\<close>.
\<close>

datatype event =
    EngineCall "string option" string "gvalue list"
  | EthBatchCall "(string \<times> gvalue list) list"
  | HeaderByNumberCall
  | NonceAtCall address int

record AccountTransactionInfo =
  PreviousBlock :: hash
  PreviousNonce :: uint64

text \<open>
  Modelled from the spec: \<open>client.BlockHeader\<close> (built by \<open>client.NewBlockHeader\<close>, declared
  outside this file) is the header of the typed client, whose \<open>ParentHash\<close> and \<open>Number\<close>
  it embeds, with the block hash recovered by the raw call, which \<open>Hash()\<close> returns.
\<close>

record BlockHeader =
  Hash :: hash
  ParentHash :: hash
  Number :: int

text \<open>
  \<open>typ.ExecutionPayloadEnvelope\<close>, with the four fields \<open>GetPayload\<close> reads. The payload
  type \<open>typ.ExecutableData\<close> and \<open>typ.BlobsBundle\<close> are declared outside this file: type
  parameters.
\<close>

record ('ed, 'bb) ExecutionPayloadEnvelope =
  ExecutionPayload :: "'ed option"
  BlockValue :: "int option"
  BlobsBundle :: "'bb option"
  ShouldOverrideBuilder :: "bool option"

definition zero_envelope :: "('ed, 'bb) ExecutionPayloadEnvelope" where
  "zero_envelope =
     \<lparr>ExecutionPayload = None, BlockValue = None, BlobsBundle = None,
      ShouldOverrideBuilder = None\<rparr>"

text \<open>
  The fields of \<open>HiveRPCEngineClient\<close> that the functions below read or write.
  \<open>Authorization\<close> is the header of the engine connection \<open>ec.c\<close>. An entry of
  \<open>accTxInfoMap\<close> is a pointer: \<open>Some None\<close> is a key bound to nil. Every pointer the
  code stores there is freshly allocated and never shared, so writing through it is an
  update of the entry.
\<close>

record 'st HiveRPCEngineClient =
  JWTSecretBytes :: bytes
  Authorization :: "string option"
  latestPayloadStatusReponse :: "'st option"
  accTxInfoMap :: "address \<rightharpoonup> AccountTransactionInfo option"

text \<open>
  What the libraries and the network do on the engine connection, as parameters:
  \<open>SignedString\<close> is the HS256 signing of the claims \<open>{iat}\<close> (golang-jwt), \<open>Now\<close> is
  \<open>time.Now().Unix()\<close>, \<open>respond\<close> is the round trip of one request (an error, or the raw
  result message), and each \<open>unmarshal\<close> is \<open>json.Unmarshal\<close> of a raw message into a
  zero value of the target type: the value it leaves there and the error it returns.
\<close>

record ('ed, 'bb, 'st) engine_env =
  SignedString :: "bytes \<Rightarrow> int \<Rightarrow> error + string"
  Now :: int
  respond :: "string option \<Rightarrow> string \<Rightarrow> gvalue list \<Rightarrow> error + raw"
  unmarshal_envelope :: "raw \<Rightarrow> ('ed, 'bb) ExecutionPayloadEnvelope \<times> error option"
  unmarshal_payload :: "raw \<Rightarrow> 'ed \<times> error option"
  unmarshal_status :: "raw \<Rightarrow> 'st \<times> error option"
  zero_payload :: 'ed
  zero_status :: 'st

text \<open>
  \<open>rpc.Client.CallContext\<close> (go-ethereum) with a non-nil result pointer to a zero value:
  a failed round trip leaves the result untouched, otherwise the raw result is unmarshalled
  into it.
\<close>

definition CallContext ::
  "('ed, 'bb, 'st) engine_env \<Rightarrow> string option \<Rightarrow> (raw \<Rightarrow> 'a \<times> error option) \<Rightarrow> 'a \<Rightarrow>
     string \<Rightarrow> gvalue list \<Rightarrow> 'a \<times> error option" where
  "CallContext env hdr unmarshal zero method args =
     (case respond env hdr method args of
        Inl e \<Rightarrow> (zero, Some e)
      | Inr msg \<Rightarrow> unmarshal msg)"

definition GetNewToken ::
  "('ed, 'bb, 'st) engine_env \<Rightarrow> bytes \<Rightarrow> int \<Rightarrow> error + string" where
  "GetNewToken env jwtSecretBytes iat =
     (case SignedString env jwtSecretBytes iat of
        Inl err \<Rightarrow> Inl err
      | Inr tokenString \<Rightarrow> Inr tokenString)"

definition PrepareAuthCallToken ::
  "('ed, 'bb, 'st) engine_env \<Rightarrow> 'st HiveRPCEngineClient \<Rightarrow> bytes \<Rightarrow> int \<Rightarrow>
     error option \<times> 'st HiveRPCEngineClient" where
  "PrepareAuthCallToken env ec jwtSecretBytes iat =
     (case GetNewToken env jwtSecretBytes iat of
        Inl err \<Rightarrow> (Some err, ec)
      | Inr newTokenString \<Rightarrow>
          (None, ec\<lparr>Authorization := Some (''Bearer '' @ newTokenString)\<rparr>))"

text \<open>The error of \<open>PrepareAuthCallToken\<close> is dropped and nil is returned.\<close>

definition PrepareDefaultAuthCallToken ::
  "('ed, 'bb, 'st) engine_env \<Rightarrow> 'st HiveRPCEngineClient \<Rightarrow>
     error option \<times> 'st HiveRPCEngineClient" where
  "PrepareDefaultAuthCallToken env ec =
     (None, snd (PrepareAuthCallToken env ec (JWTSecretBytes ec) (Now env)))"

text \<open>
  \<open>GetPayload\<close> returns its five results, the client as the call leaves it, and what it
  sent.
\<close>

definition GetPayload ::
  "('ed, 'bb, 'st) engine_env \<Rightarrow> 'st HiveRPCEngineClient \<Rightarrow> int \<Rightarrow> 64 word option \<Rightarrow>
     ('ed \<times> int option \<times> 'bb option \<times> bool option \<times> error option)
       \<times> 'st HiveRPCEngineClient \<times> event list" where
  "GetPayload env ec version payloadId =
     (let rpcString = ''engine_getPayloadV'' @ itoa version;
          (err, ec1) = PrepareDefaultAuthCallToken env ec
      in case err of
           Some e \<Rightarrow> ((zero_payload env, None, None, None, Some e), ec1, [])
         | None \<Rightarrow>
            (let args = [GPtr (map_option GPayloadID payloadId)];
                 sent = [EngineCall (Authorization ec1) rpcString args]
             in if version \<ge> 2 then
                  (let (response, err) =
                         CallContext env (Authorization ec1) (unmarshal_envelope env)
                           zero_envelope rpcString args;
                       executableData =
                         (case ExecutionPayload response of
                            Some p \<Rightarrow> p | None \<Rightarrow> zero_payload env)
                   in ((executableData, BlockValue response, BlobsBundle response,
                        ShouldOverrideBuilder response, err), ec1, sent))
                else
                  (let (executableData, err) =
                         CallContext env (Authorization ec1) (unmarshal_payload env)
                           (zero_payload env) rpcString args
                   in ((executableData, None, None, None, err), ec1, sent))))"


subsection \<open>The eth connection: batches and account nonces\<close>

text \<open>
  \<open>rpc.BatchElem\<close>. \<open>Result\<close> is a pointer to a \<open>common.Hash\<close> in both batches of this
  file; the field holds the content of that cell, and a pointer to the cell of a request
  is the index of the request.
\<close>

record BatchElem =
  Method :: string
  Args :: "gvalue list"
  Result :: hash
  Error :: "error option"

text \<open>
  What the libraries and the network do on the eth connection, as parameters:
  \<open>HeaderByNumber\<close> is the outcome of \<open>ec.HeaderByNumber(ctx, nil)\<close>, the lookup of the
  current head; \<open>NonceAt\<close> is the nonce query of \<open>ethclient\<close>; \<open>BatchReply\<close> is the round
  trip of a batch: the error of the batch as a whole and, for the request at each index,
  the content left in its result cell (which starts as the zero hash) and its own error;
  \<open>MarshalBinary\<close> is the encoding of a transaction.
\<close>

record 'tx eth_env =
  HeaderByNumber :: "error + BlockHeader"
  NonceAt :: "address \<Rightarrow> int \<Rightarrow> error + uint64"
  BatchReply :: "(string \<times> gvalue list) list \<Rightarrow> error option \<times> (nat \<Rightarrow> hash \<times> error option)"
  MarshalBinary :: "'tx \<Rightarrow> error + bytes"

text \<open>
  \<open>rpc.Client.BatchCallContext\<close> (go-ethereum) writes the result cell and the \<open>Error\<close>
  field of each element in place.
\<close>

definition BatchCallContext ::
  "'tx eth_env \<Rightarrow> BatchElem list \<Rightarrow> error option \<times> BatchElem list" where
  "BatchCallContext env reqs =
     (let (err, filled) = BatchReply env (map (\<lambda>b. (Method b, Args b)) reqs)
      in (err, map (\<lambda>(i, b). b\<lparr>Result := fst (filled i), Error := snd (filled i)\<rparr>)
                 (enumerate 0 reqs)))"

text \<open>
  The first loop of \<open>StorageAtKeys\<close>: one request per key, and \<open>results[key]\<close> bound to
  the result cell of that request (a later request for the same key rebinds it).
\<close>

fun storage_loop ::
  "address \<Rightarrow> string \<Rightarrow> hash list \<Rightarrow> BatchElem list \<Rightarrow> (hash \<rightharpoonup> nat) \<Rightarrow>
     BatchElem list \<times> (hash \<rightharpoonup> nat)" where
  "storage_loop account blockNumberString [] reqs results = (reqs, results)"
| "storage_loop account blockNumberString (key # keys) reqs results =
     storage_loop account blockNumberString keys
       (reqs @ [\<lparr>Method = ''eth_getStorageAt'',
                 Args = [GAddress account, GHash key, GString blockNumberString],
                 Result = 0, Error = None\<rparr>])
       (results(key \<mapsto> length reqs))"

text \<open>The second loop: the first element that carries an error, with its index.\<close>

fun first_error :: "nat \<Rightarrow> BatchElem list \<Rightarrow> (nat \<times> error) option" where
  "first_error i [] = None"
| "first_error i (req # reqs) =
     (case Error req of
        Some e \<Rightarrow> Some (i, e)
      | None \<Rightarrow> first_error (Suc i) reqs)"

text \<open>
  \<open>StorageAtKeys\<close> returns either the error or the map, whose entries are read through
  the pointers once the batch has filled the cells, and what it sent.
\<close>

definition StorageAtKeys ::
  "'tx eth_env \<Rightarrow> address \<Rightarrow> hash list \<Rightarrow> int option \<Rightarrow>
     (error + (hash \<rightharpoonup> hash)) \<times> event list" where
  "StorageAtKeys env account keys blockNumber =
     (let blockNumberString =
            (case blockNumber of None \<Rightarrow> ''latest'' | Some n \<Rightarrow> EncodeBig n);
          (reqs, results) = storage_loop account blockNumberString keys [] Map.empty;
          (err, reqs') = BatchCallContext env reqs;
          sent = [EthBatchCall (map (\<lambda>b. (Method b, Args b)) reqs)]
      in case err of
           Some e \<Rightarrow> (Inl e, sent)
         | None \<Rightarrow>
            (case first_error 0 reqs' of
               Some (i, e) \<Rightarrow> (Inl (ErrStorageAtIndex e i), sent)
             | None \<Rightarrow>
                (Inr (\<lambda>key. case results key of
                               None \<Rightarrow> None
                             | Some p \<Rightarrow> Some (Result (reqs' ! p))), sent)))"

text \<open>The first loop of \<open>SendTransactions\<close>: it returns at the first encoding error.\<close>

fun marshal_loop ::
  "('tx \<Rightarrow> error + bytes) \<Rightarrow> 'tx list \<Rightarrow> BatchElem list \<Rightarrow> error + BatchElem list" where
  "marshal_loop marshal [] reqs = Inr reqs"
| "marshal_loop marshal (tx # txs) reqs =
     (case marshal tx of
        Inl err \<Rightarrow> Inl err
      | Inr data \<Rightarrow>
          marshal_loop marshal txs
            (reqs @ [\<lparr>Method = ''eth_sendRawTransaction'',
                      Args = [GString (Encode data)],
                      Result = 0, Error = None\<rparr>]))"

text \<open>
  \<open>SendTransactions\<close> returns a slice of errors (\<open>None\<close> is a nil element, \<open>[]\<close> the nil
  slice) and what it sent. The slice \<open>errs\<close> is filled and then nil is returned.
\<close>

definition SendTransactions ::
  "'tx eth_env \<Rightarrow> 'tx list \<Rightarrow> error option list \<times> event list" where
  "SendTransactions env txs =
     (case marshal_loop (MarshalBinary env) txs [] of
        Inl err \<Rightarrow> ([Some err], [])
      | Inr reqs \<Rightarrow>
         (let (err, reqs') = BatchCallContext env reqs;
              sent = [EthBatchCall (map (\<lambda>b. (Method b, Args b)) reqs)]
          in case err of
               Some e \<Rightarrow> ([Some e], sent)
             | None \<Rightarrow> (let errs = map Error reqs' in ([], sent))))"

text \<open>
  The account nonce functions return the nonce or the error, the client as the call
  leaves it, and what they sent.
\<close>

definition GetLastAccountNonce ::
  "'tx eth_env \<Rightarrow> 'st HiveRPCEngineClient \<Rightarrow> address \<Rightarrow>
     (error + uint64) \<times> 'st HiveRPCEngineClient \<times> event list" where
  "GetLastAccountNonce env ec account =
     (case HeaderByNumber env of
        Inl err \<Rightarrow> (Inl err, ec, [HeaderByNumberCall])
      | Inr head \<Rightarrow>
         (case accTxInfoMap ec account of
            Some (Some accTxInfo) \<Rightarrow>
              if PreviousBlock accTxInfo = Hash head
                 \<or> PreviousBlock accTxInfo = ParentHash head
              then (Inr (PreviousNonce accTxInfo), ec, [HeaderByNumberCall])
              else (Inl (ErrNoPreviousNonce account), ec, [HeaderByNumberCall])
          | _ \<Rightarrow> (Inl (ErrNoPreviousNonce account), ec, [HeaderByNumberCall])))"

text \<open>The network branch of \<open>GetNextAccountNonce\<close>, taken when the cache does not apply.\<close>

definition request_nonce ::
  "'tx eth_env \<Rightarrow> 'st HiveRPCEngineClient \<Rightarrow> address \<Rightarrow> BlockHeader \<Rightarrow>
     (error + uint64) \<times> 'st HiveRPCEngineClient \<times> event list" where
  "request_nonce env ec account head =
     (case NonceAt env account (Number head) of
        Inl err \<Rightarrow> (Inl err, ec, [HeaderByNumberCall, NonceAtCall account (Number head)])
      | Inr nonce \<Rightarrow>
          (Inr nonce,
           ec\<lparr>accTxInfoMap := (accTxInfoMap ec)(account \<mapsto>
                 Some \<lparr>PreviousBlock = Hash head, PreviousNonce = nonce\<rparr>)\<rparr>,
           [HeaderByNumberCall, NonceAtCall account (Number head)]))"

definition GetNextAccountNonce ::
  "'tx eth_env \<Rightarrow> 'st HiveRPCEngineClient \<Rightarrow> address \<Rightarrow>
     (error + uint64) \<times> 'st HiveRPCEngineClient \<times> event list" where
  "GetNextAccountNonce env ec account =
     (case HeaderByNumber env of
        Inl err \<Rightarrow> (Inl err, ec, [HeaderByNumberCall])
      | Inr head \<Rightarrow>
         (case accTxInfoMap ec account of
            Some (Some accTxInfo) \<Rightarrow>
              if PreviousBlock accTxInfo = Hash head
                 \<or> PreviousBlock accTxInfo = ParentHash head
              then
                (let accTxInfo' = accTxInfo\<lparr>PreviousBlock := Hash head,
                                            PreviousNonce := PreviousNonce accTxInfo + 1\<rparr>
                 in (Inr (PreviousNonce accTxInfo'),
                     ec\<lparr>accTxInfoMap := (accTxInfoMap ec)(account \<mapsto> Some accTxInfo')\<rparr>,
                     [HeaderByNumberCall]))
              else request_nonce env ec account head
          | _ \<Rightarrow> request_nonce env ec account head))"

definition UpdateNonce ::
  "'tx eth_env \<Rightarrow> 'st HiveRPCEngineClient \<Rightarrow> address \<Rightarrow> uint64 \<Rightarrow>
     error option \<times> 'st HiveRPCEngineClient \<times> event list" where
  "UpdateNonce env ec account newNonce =
     (case HeaderByNumber env of
        Inl err \<Rightarrow> (Some err, ec, [HeaderByNumberCall])
      | Inr head \<Rightarrow>
          (None,
           ec\<lparr>accTxInfoMap := (accTxInfoMap ec)(account \<mapsto>
                 Some \<lparr>PreviousBlock = Hash head, PreviousNonce = newNonce\<rparr>)\<rparr>,
           [HeaderByNumberCall]))"

subsection \<open>Example inputs\<close>

text \<open>
  Concrete inputs on which the theorems below are evaluated: a genesis with Shanghai at
  time 10 and an account at address 5; a client that caches block 2 and nonce 5 for
  account 1; block 2 (\<open>example_headA\<close>), its parent block 1 and its child block 3; an
  eth connection whose batch succeeds while every element carries an error, and one
  whose elements all succeed; an engine connection whose signer succeeds or fails.
\<close>

definition example_genesis :: Genesis where
  "example_genesis =
     \<lparr>Config = \<lparr>ShanghaiTime = Some 10, CancunTime = None\<rparr>, Timestamp = 0,
      BlobGasUsed = None, ExcessBlobGas = None,
      Alloc = [5 \<mapsto> \<lparr>Code = [], Balance = 7, Nonce = 0\<rparr>]\<rparr>"

definition example_client :: "nat HiveRPCEngineClient" where
  "example_client =
     \<lparr>JWTSecretBytes = [1, 2, 3], Authorization = None, latestPayloadStatusReponse = None,
      accTxInfoMap = [1 \<mapsto> Some \<lparr>PreviousBlock = 2, PreviousNonce = 5\<rparr>]\<rparr>"

definition example_headA :: BlockHeader where
  "example_headA = \<lparr>Hash = 2, ParentHash = 1, Number = 2\<rparr>"

definition example_parent :: BlockHeader where
  "example_parent = \<lparr>Hash = 1, ParentHash = 0, Number = 1\<rparr>"

definition example_child :: BlockHeader where
  "example_child = \<lparr>Hash = 3, ParentHash = 2, Number = 3\<rparr>"

definition example_eth :: "BlockHeader \<Rightarrow> nat eth_env" where
  "example_eth head =
     \<lparr>HeaderByNumber = Inr head,
      NonceAt = (\<lambda>account number. Inr 9),
      BatchReply = (\<lambda>calls. (None, \<lambda>i. (0, Some (LibError ''element error'')))),
      MarshalBinary = (\<lambda>tx. Inr [of_nat tx])\<rparr>"

definition example_engine :: "bool \<Rightarrow> (nat, nat, nat) engine_env" where
  "example_engine signing_ok =
     \<lparr>SignedString = (\<lambda>key iat. if signing_ok then Inr ''token''
                                 else Inl (LibError ''hash unavailable'')),
      Now = 1700000000,
      respond = (\<lambda>hdr method args. Inr ''{}''),
      unmarshal_envelope = (\<lambda>msg.
         (\<lparr>ExecutionPayload = Some 7, BlockValue = Some 3, BlobsBundle = Some 4,
           ShouldOverrideBuilder = Some True\<rparr>, None)),
      unmarshal_payload = (\<lambda>msg. (7, None)),
      unmarshal_status = (\<lambda>msg. (1, None)),
      zero_payload = 0,
      zero_status = 0\<rparr>"

definition example_eth_ok :: "nat eth_env" where
  "example_eth_ok =
     \<lparr>HeaderByNumber = Inr example_child,
      NonceAt = (\<lambda>account number. Inr 9),
      BatchReply = (\<lambda>calls. (None, \<lambda>i. (of_nat i + 100, None))),
      MarshalBinary = (\<lambda>tx. Inr [of_nat tx])\<rparr>"

section \<open>Genesis configuration\<close>

text \<open>
  C10: when \<open>ConfigGenesis\<close> returns the fork-ordering error, the genesis it leaves
  behind already carries the requested Cancun activation time (the assignment runs
  before the ordering check); nothing else of the genesis is touched.
\<close>

theorem ConfigGenesis_ordering_error_sets_cancun:
  assumes "ShanghaiTime (Config genesis) = Some s" and "s > forkTimestamp"
  shows "ConfigGenesis BRA genesis forkTimestamp =
           (Some ErrMustBeAfterShanghai,
            genesis\<lparr>Config := (Config genesis)\<lparr>CancunTime := Some forkTimestamp\<rparr>\<rparr>)"
  using assms by (simp add: ConfigGenesis_def Let_def)

theorem ConfigGenesis_ordering_error_sets_cancun_witness:
  "ShanghaiTime (Config example_genesis) = Some 10 \<and> (10 :: uint64) > 5 \<and>
   ConfigGenesis 5 example_genesis 5 =
     (Some ErrMustBeAfterShanghai,
      example_genesis\<lparr>Config := (Config example_genesis)\<lparr>CancunTime := Some 5\<rparr>\<rparr>)"
  using ConfigGenesis_ordering_error_sets_cancun [of example_genesis 10 5 5]
  by (simp add: example_genesis_def)

text \<open>
  C8: \<open>ConfigGenesis\<close> returns an error when the Shanghai activation time is unset, and an
  error when it is strictly later than the requested Cancun activation time; otherwise
  it returns nil and the genesis carries the requested Cancun activation time.
\<close>

theorem ConfigGenesis_errors_and_success:
  "(ShanghaiTime (Config genesis) = None \<longrightarrow>
      fst (ConfigGenesis BRA genesis forkTimestamp) = Some ErrRequiresShanghai)
   \<and> (\<forall>s. ShanghaiTime (Config genesis) = Some s \<and> s > forkTimestamp \<longrightarrow>
      fst (ConfigGenesis BRA genesis forkTimestamp) = Some ErrMustBeAfterShanghai)
   \<and> (\<forall>s. ShanghaiTime (Config genesis) = Some s \<and> \<not> s > forkTimestamp \<longrightarrow>
      fst (ConfigGenesis BRA genesis forkTimestamp) = None
      \<and> CancunTime (Config (snd (ConfigGenesis BRA genesis forkTimestamp))) = Some forkTimestamp)"
  by (simp add: ConfigGenesis_def Let_def)

theorem ConfigGenesis_errors_and_success_witness:
  "fst (ConfigGenesis 5 (example_genesis\<lparr>Config := \<lparr>ShanghaiTime = None, CancunTime = None\<rparr>\<rparr>) 5)
      = Some ErrRequiresShanghai
   \<and> fst (ConfigGenesis 5 example_genesis 5) = Some ErrMustBeAfterShanghai
   \<and> fst (ConfigGenesis 5 example_genesis 10) = None
   \<and> CancunTime (Config (snd (ConfigGenesis 5 example_genesis 10))) = Some 10"
  using ConfigGenesis_errors_and_success
          [of "example_genesis\<lparr>Config := \<lparr>ShanghaiTime = None, CancunTime = None\<rparr>\<rparr>" 5 5]
        ConfigGenesis_errors_and_success [of example_genesis 5 5]
        ConfigGenesis_errors_and_success [of example_genesis 5 10]
  by (simp add: example_genesis_def)

subsection \<open>Address collisions\<close>

text \<open>The loop never touches an entry that is already there.\<close>

lemma datahash_loop_keeps:
  "Alloc genesis a = Some acc \<Longrightarrow> Alloc (snd (datahash_loop c s i genesis)) a = Some acc"
proof (induction c s i genesis rule: datahash_loop.induct)
  case (1 c s i genesis)
  show ?case
  proof (cases "i < c \<and> Alloc genesis (BigToAddress (s + i)) = None")
    case True
    then have "a \<noteq> BigToAddress (s + i)" using 1(2) by auto
    with 1 True show ?thesis by (subst datahash_loop.simps) (simp add: Let_def)
  next
    case False
    with 1 show ?thesis by (subst datahash_loop.simps) (auto simp: Let_def)
  qed
qed

text \<open>A fixture address that is taken makes the loop panic, at that index or before.\<close>

lemma datahash_loop_panics:
  "i \<le> j \<Longrightarrow> j < c \<Longrightarrow> Alloc genesis (BigToAddress (s + j)) \<noteq> None \<Longrightarrow>
   \<exists>k. i \<le> k \<and> k < c \<and>
     fst (datahash_loop c s i genesis) = Panicked (ErrReusedAddress (BigToAddress (s + k)))"
proof (induction c s i genesis rule: datahash_loop.induct)
  case (1 c s i genesis)
  have ic: "i < c" using 1 by simp
  show ?case
  proof (cases "Alloc genesis (BigToAddress (s + i)) = None")
    case True
    with 1(2-) have "i \<noteq> j" by auto
    with 1(2) have "i + 1 \<le> j" by simp
    moreover have "Alloc (genesis\<lparr>Alloc := (Alloc genesis)(BigToAddress (s + i) \<mapsto>
            \<lparr>Code = datahashCode, Balance = 1, Nonce = 0\<rparr>)\<rparr>) (BigToAddress (s + j)) \<noteq> None"
      using 1(4) by simp
    ultimately have "\<exists>k. i + 1 \<le> k \<and> k < c \<and>
      fst (datahash_loop c s (i + 1)
         (genesis\<lparr>Alloc := (Alloc genesis)(BigToAddress (s + i) \<mapsto>
            \<lparr>Code = datahashCode, Balance = 1, Nonce = 0\<rparr>)\<rparr>))
       = Panicked (ErrReusedAddress (BigToAddress (s + k)))"
      using 1(1)[OF ic refl] True 1(3) by blast
    then obtain k where "i + 1 \<le> k" "k < c"
      "fst (datahash_loop c s (i + 1)
         (genesis\<lparr>Alloc := (Alloc genesis)(BigToAddress (s + i) \<mapsto>
            \<lparr>Code = datahashCode, Balance = 1, Nonce = 0\<rparr>)\<rparr>))
       = Panicked (ErrReusedAddress (BigToAddress (s + k)))"
      by blast
    then show ?thesis using ic True
      by (subst datahash_loop.simps) (auto simp: Let_def intro!: exI[of _ k])
  next
    case False
    with ic show ?thesis
      by (subst datahash_loop.simps) (auto simp: Let_def intro!: exI[of _ i])
  qed
qed

text \<open>When the loop returns, every fixture address from \<open>i\<close> on holds the DATAHASH account.\<close>

lemma datahash_loop_returns:
  "fst (datahash_loop c s i genesis) = Returned r \<Longrightarrow> i \<le> j \<Longrightarrow> j < c \<Longrightarrow>
   Alloc (snd (datahash_loop c s i genesis)) (BigToAddress (s + j))
       = Some \<lparr>Code = datahashCode, Balance = 1, Nonce = 0\<rparr>"
proof (induction c s i genesis rule: datahash_loop.induct)
  case (1 c s i genesis)
  let ?a = "BigToAddress (s + i)"
  let ?g = "genesis\<lparr>Alloc := (Alloc genesis)(?a \<mapsto> \<lparr>Code = datahashCode, Balance = 1, Nonce = 0\<rparr>)\<rparr>"
  have ic: "i < c" using 1 by simp
  have free: "Alloc genesis ?a = None"
    using 1(2) ic by (subst (asm) datahash_loop.simps) (auto simp: Let_def split: if_splits)
  have unf: "datahash_loop c s i genesis = datahash_loop c s (i + 1) ?g"
    using ic free by (subst datahash_loop.simps) (simp add: Let_def)
  show ?case
  proof (cases "j = i")
    case True
    have "Alloc ?g ?a = Some \<lparr>Code = datahashCode, Balance = 1, Nonce = 0\<rparr>" by simp
    then show ?thesis unfolding unf True by (rule datahash_loop_keeps)
  next
    case False
    then have "i + 1 \<le> j" using 1(3) by simp
    then show ?thesis using 1(1) ic free 1(2) 1(4) unfolding unf by simp
  qed
qed

text \<open>
  C9, as stated, fails for the beacon-roots address: \<open>ConfigGenesis\<close> on a genesis that
  already has an account at that address returns nil and replaces the account.
\<close>

theorem ConfigGenesis_overwrites_counterexample:
  "Alloc example_genesis 5 = Some \<lparr>Code = [], Balance = 7, Nonce = 0\<rparr>
   \<and> fst (ConfigGenesis 5 example_genesis 10) = None
   \<and> Alloc (snd (ConfigGenesis 5 example_genesis 10)) 5
       = Some \<lparr>Code = BEACON_ROOTS_CODE, Balance = 0, Nonce = 1\<rparr>"
  by (simp add: example_genesis_def ConfigGenesis_def Let_def)

text \<open>
  C9, amended: \<open>ConfigTestAccounts\<close> panics with the reused-address error whenever one of
  the DATAHASH fixture addresses is already in the allocation set, and it never
  overwrites an entry that is already there; \<open>ConfigGenesis\<close>, when it succeeds, places
  the beacon-roots pre-deploy at its address whatever was there before.
\<close>

theorem fixture_address_collisions:
  "((\<exists>j. 0 \<le> j \<and> j < cnt \<and> Alloc genesis (BigToAddress (start + j)) \<noteq> None) \<longrightarrow>
      (\<exists>k. 0 \<le> k \<and> k < cnt \<and>
         fst (ConfigTestAccounts cnt start genesis)
           = Panicked (ErrReusedAddress (BigToAddress (start + k)))))
   \<and> (\<forall>a acc. Alloc genesis a = Some acc \<longrightarrow>
         Alloc (snd (ConfigTestAccounts cnt start genesis)) a = Some acc)
   \<and> (\<forall>s. ShanghaiTime (Config genesis) = Some s \<and> \<not> s > forkTimestamp \<longrightarrow>
         fst (ConfigGenesis BRA genesis forkTimestamp) = None
         \<and> Alloc (snd (ConfigGenesis BRA genesis forkTimestamp)) BRA
             = Some \<lparr>Code = BEACON_ROOTS_CODE, Balance = 0, Nonce = 1\<rparr>)"
proof (intro conjI impI allI)
  assume "\<exists>j. 0 \<le> j \<and> j < cnt \<and> Alloc genesis (BigToAddress (start + j)) \<noteq> None"
  then obtain j where "0 \<le> j" "j < cnt" "Alloc genesis (BigToAddress (start + j)) \<noteq> None"
    by blast
  then show "\<exists>k. 0 \<le> k \<and> k < cnt \<and>
         fst (ConfigTestAccounts cnt start genesis)
           = Panicked (ErrReusedAddress (BigToAddress (start + k)))"
    unfolding ConfigTestAccounts_def by (rule datahash_loop_panics)
next
  fix a acc assume "Alloc genesis a = Some acc"
  then show "Alloc (snd (ConfigTestAccounts cnt start genesis)) a = Some acc"
    unfolding ConfigTestAccounts_def by (rule datahash_loop_keeps)
next
  fix s assume "ShanghaiTime (Config genesis) = Some s \<and> \<not> s > forkTimestamp"
  then show "fst (ConfigGenesis BRA genesis forkTimestamp) = None"
    by (simp add: ConfigGenesis_def Let_def)
next
  fix s assume "ShanghaiTime (Config genesis) = Some s \<and> \<not> s > forkTimestamp"
  then show "Alloc (snd (ConfigGenesis BRA genesis forkTimestamp)) BRA
             = Some \<lparr>Code = BEACON_ROOTS_CODE, Balance = 0, Nonce = 1\<rparr>"
    by (simp add: ConfigGenesis_def Let_def)
qed

theorem fixture_address_collisions_witness:
  "(0::int) \<le> 1 \<and> (1::int) < 3 \<and> Alloc example_genesis (BigToAddress (4 + 1)) \<noteq> None
   \<and> fst (ConfigTestAccounts 3 4 example_genesis) = Panicked (ErrReusedAddress 5)
   \<and> Alloc (snd (ConfigTestAccounts 3 4 example_genesis)) 5
       = Some \<lparr>Code = [], Balance = 7, Nonce = 0\<rparr>
   \<and> ShanghaiTime (Config example_genesis) = Some 10 \<and> \<not> (10 :: uint64) > 10
   \<and> fst (ConfigGenesis 5 example_genesis 10) = None
   \<and> Alloc (snd (ConfigGenesis 5 example_genesis 10)) 5
       = Some \<lparr>Code = BEACON_ROOTS_CODE, Balance = 0, Nonce = 1\<rparr>"
  using fixture_address_collisions [of 3 example_genesis 4 10 5]
  by (simp add: example_genesis_def ConfigTestAccounts_def datahash_loop.simps
        BigToAddress_def ConfigGenesis_def Let_def)

section \<open>Account nonces\<close>

text \<open>
  C7: \<open>GetLastAccountNonce\<close> leaves the client, and so the account-nonce map, as it
  found it, and sends nothing but the head lookup (no nonce query). Given the head it
  fetched, it returns the cached nonce when the account has an entry whose block is the
  hash of that head or its parent hash, and the no-previous-nonce error exactly
  otherwise.
\<close>

theorem GetLastAccountNonce_read_only:
  "snd (GetLastAccountNonce env ec account) = (ec, [HeaderByNumberCall])
   \<and> (\<forall>head. HeaderByNumber env = Inr head \<longrightarrow>
        (\<forall>info. accTxInfoMap ec account = Some (Some info)
                \<and> (PreviousBlock info = Hash head \<or> PreviousBlock info = ParentHash head) \<longrightarrow>
           fst (GetLastAccountNonce env ec account) = Inr (PreviousNonce info))
        \<and> (\<not> (\<exists>info. accTxInfoMap ec account = Some (Some info)
                \<and> (PreviousBlock info = Hash head \<or> PreviousBlock info = ParentHash head)) \<longrightarrow>
           fst (GetLastAccountNonce env ec account) = Inl (ErrNoPreviousNonce account)))"
  by (auto simp: GetLastAccountNonce_def split: sum.splits option.splits)

theorem GetLastAccountNonce_read_only_witness:
  "snd (GetLastAccountNonce (example_eth example_child) example_client 1)
     = (example_client, [HeaderByNumberCall])
   \<and> HeaderByNumber (example_eth example_child) = Inr example_child
   \<and> accTxInfoMap example_client 1 = Some (Some \<lparr>PreviousBlock = 2, PreviousNonce = 5\<rparr>)
   \<and> ParentHash example_child = 2
   \<and> fst (GetLastAccountNonce (example_eth example_child) example_client 1) = Inr 5
   \<and> HeaderByNumber (example_eth example_parent) = Inr example_parent
   \<and> fst (GetLastAccountNonce (example_eth example_parent) example_client 1)
       = Inl (ErrNoPreviousNonce 1)"
  using GetLastAccountNonce_read_only [of "example_eth example_child" example_client 1]
        GetLastAccountNonce_read_only [of "example_eth example_parent" example_client 1]
  by (simp add: example_eth_def example_client_def example_child_def example_parent_def)

text \<open>
  C1, as stated, fails: the cache holds block 2 (whose parent is block 1) with nonce 5
  and the head fetched is block 1, the direct parent of the cached block. The stored
  block is neither the hash nor the parent hash of that head, so the nonce is queried
  on the network and the queried value 9 is returned, not 6.
\<close>

theorem GetNextAccountNonce_parent_of_cached_counterexample:
  "accTxInfoMap example_client 1
      = Some (Some \<lparr>PreviousBlock = Hash example_headA, PreviousNonce = 5\<rparr>)
   \<and> Hash example_parent = ParentHash example_headA
   \<and> HeaderByNumber (example_eth example_parent) = Inr example_parent
   \<and> fst (GetNextAccountNonce (example_eth example_parent) example_client 1) = Inr 9
   \<and> fst (GetNextAccountNonce (example_eth example_parent) example_client 1) \<noteq> Inr (5 + 1)
   \<and> snd (snd (GetNextAccountNonce (example_eth example_parent) example_client 1))
       = [HeaderByNumberCall, NonceAtCall 1 1]"
  by (simp add: GetNextAccountNonce_def request_nonce_def example_eth_def example_client_def
        example_headA_def example_parent_def)

text \<open>
  C1, amended: given the head it fetched, when the account has an entry \<open>(headA, N)\<close>
  and \<open>headA\<close> is the hash of that head or its parent hash (the head is \<open>headA\<close> or a
  direct child of \<open>headA\<close>), \<open>GetNextAccountNonce\<close> returns \<open>N + 1\<close> (in \<open>uint64\<close>),
  rewrites the entry to the current head and \<open>N + 1\<close>, and sends no nonce query.
  Otherwise it sends one nonce query at the number of the current head; when the query
  succeeds it stores the current head with the queried nonce and returns that nonce
  as it is, and when the query fails it returns the error and leaves the map alone.
\<close>

theorem GetNextAccountNonce_paths:
  assumes "HeaderByNumber env = Inr head"
  shows "(\<forall>info. accTxInfoMap ec account = Some (Some info)
                \<and> (PreviousBlock info = Hash head \<or> PreviousBlock info = ParentHash head) \<longrightarrow>
           GetNextAccountNonce env ec account =
             (Inr (PreviousNonce info + 1),
              ec\<lparr>accTxInfoMap := (accTxInfoMap ec)(account \<mapsto>
                    Some (info\<lparr>PreviousBlock := Hash head,
                               PreviousNonce := PreviousNonce info + 1\<rparr>))\<rparr>,
              [HeaderByNumberCall]))
   \<and> (\<not> (\<exists>info. accTxInfoMap ec account = Some (Some info)
                \<and> (PreviousBlock info = Hash head \<or> PreviousBlock info = ParentHash head)) \<longrightarrow>
        (\<forall>nonce. NonceAt env account (Number head) = Inr nonce \<longrightarrow>
           GetNextAccountNonce env ec account =
             (Inr nonce,
              ec\<lparr>accTxInfoMap := (accTxInfoMap ec)(account \<mapsto>
                    Some \<lparr>PreviousBlock = Hash head, PreviousNonce = nonce\<rparr>)\<rparr>,
              [HeaderByNumberCall, NonceAtCall account (Number head)]))
        \<and> (\<forall>err. NonceAt env account (Number head) = Inl err \<longrightarrow>
           GetNextAccountNonce env ec account =
             (Inl err, ec, [HeaderByNumberCall, NonceAtCall account (Number head)])))"
  using assms
  by (auto simp: GetNextAccountNonce_def request_nonce_def split: sum.splits option.splits)

theorem GetNextAccountNonce_paths_witness:
  "HeaderByNumber (example_eth example_child) = Inr example_child
   \<and> accTxInfoMap example_client 1 = Some (Some \<lparr>PreviousBlock = 2, PreviousNonce = 5\<rparr>)
   \<and> ParentHash example_child = 2
   \<and> GetNextAccountNonce (example_eth example_child) example_client 1 =
       (Inr 6,
        example_client\<lparr>accTxInfoMap :=
           [1 \<mapsto> Some \<lparr>PreviousBlock = 3, PreviousNonce = 6\<rparr>]\<rparr>,
        [HeaderByNumberCall])
   \<and> HeaderByNumber (example_eth example_parent) = Inr example_parent
   \<and> NonceAt (example_eth example_parent) 1 (Number example_parent) = Inr 9
   \<and> GetNextAccountNonce (example_eth example_parent) example_client 1 =
       (Inr 9,
        example_client\<lparr>accTxInfoMap :=
           [1 \<mapsto> Some \<lparr>PreviousBlock = 1, PreviousNonce = 9\<rparr>]\<rparr>,
        [HeaderByNumberCall, NonceAtCall 1 1])"
  using GetNextAccountNonce_paths [of "example_eth example_child" example_child example_client 1]
        GetNextAccountNonce_paths [of "example_eth example_parent" example_parent example_client 1]
  by (simp add: example_eth_def example_client_def example_child_def example_parent_def)

section \<open>Engine API calls\<close>

text \<open>
  C2: the request of \<open>GetPayload\<close> being answered by a raw message, for a version of 2
  or more the message is unmarshalled as an envelope, and the block value, the blobs
  bundle and the override flag returned are those of that envelope (the payload is the
  envelope's, or the zero value when it has none); for a version below 2, so for
  version 1, the message is unmarshalled as the bare payload. For a version below 2 the
  block value, the blobs bundle and the override flag are nil whatever the answer.
\<close>

theorem GetPayload_version_decoding:
  "(\<forall>msg. respond env (Authorization (snd (PrepareDefaultAuthCallToken env ec)))
            (''engine_getPayloadV'' @ itoa version)
            [GPtr (map_option GPayloadID payloadId)] = Inr msg \<longrightarrow>
      (version \<ge> 2 \<longrightarrow>
         fst (GetPayload env ec version payloadId) =
           (case ExecutionPayload (fst (unmarshal_envelope env msg)) of
              Some p \<Rightarrow> p | None \<Rightarrow> zero_payload env,
            BlockValue (fst (unmarshal_envelope env msg)),
            BlobsBundle (fst (unmarshal_envelope env msg)),
            ShouldOverrideBuilder (fst (unmarshal_envelope env msg)),
            snd (unmarshal_envelope env msg)))
      \<and> (version < 2 \<longrightarrow>
         fst (GetPayload env ec version payloadId) =
           (fst (unmarshal_payload env msg), None, None, None,
            snd (unmarshal_payload env msg))))
   \<and> (version < 2 \<longrightarrow>
        (\<exists>executableData err.
           fst (GetPayload env ec version payloadId) =
             (executableData, None, None, None, err)))"
  by (auto simp: GetPayload_def PrepareDefaultAuthCallToken_def CallContext_def Let_def
           split: prod.splits sum.splits)

theorem GetPayload_version_decoding_witness:
  "respond (example_engine True)
      (Authorization (snd (PrepareDefaultAuthCallToken (example_engine True) example_client)))
      (''engine_getPayloadV'' @ itoa 3) [GPtr (map_option GPayloadID (Some 8))] = Inr ''{}''
   \<and> (3 :: int) \<ge> 2
   \<and> fst (GetPayload (example_engine True) example_client 3 (Some 8))
        = (7, Some 3, Some 4, Some True, None)
   \<and> respond (example_engine True)
      (Authorization (snd (PrepareDefaultAuthCallToken (example_engine True) example_client)))
      (''engine_getPayloadV'' @ itoa 1) [GPtr (map_option GPayloadID (Some 8))] = Inr ''{}''
   \<and> (1 :: int) < 2
   \<and> fst (GetPayload (example_engine True) example_client 1 (Some 8))
        = (7, None, None, None, None)"
  using GetPayload_version_decoding [of "example_engine True" example_client 3 "Some 8"]
        GetPayload_version_decoding [of "example_engine True" example_client 1 "Some 8"]
  by (simp add: example_engine_def)






section \<open>Batches\<close>

text \<open>
  The first loop of \<open>StorageAtKeys\<close>: the requests it builds, the keys it binds, and the
  cell each key ends up bound to.
\<close>

lemma storage_loop_reqs:
  "fst (storage_loop account bns keys reqs results) =
     reqs @ map (\<lambda>key. \<lparr>Method = ''eth_getStorageAt'',
                          Args = [GAddress account, GHash key, GString bns],
                          Result = 0, Error = None\<rparr>) keys"
  by (induction keys arbitrary: reqs results) simp_all

lemma storage_loop_other:
  "k \<notin> set keys \<Longrightarrow> snd (storage_loop account bns keys reqs results) k = results k"
  by (induction keys arbitrary: reqs results) simp_all

lemma storage_loop_dom:
  "dom (snd (storage_loop account bns keys reqs results)) = dom results \<union> set keys"
  by (induction keys arbitrary: reqs results) auto

lemma storage_loop_bound:
  "k \<in> set keys \<Longrightarrow>
   \<exists>j<length keys. keys ! j = k
      \<and> snd (storage_loop account bns keys reqs results) k = Some (length reqs + j)"
proof (induction keys arbitrary: reqs results)
  case Nil
  then show ?case by simp
next
  case (Cons key keys)
  show ?case
  proof (cases "k \<in> set keys")
    case True
    let ?reqs = "reqs @ [\<lparr>Method = ''eth_getStorageAt'',
                       Args = [GAddress account, GHash key, GString bns],
                       Result = 0, Error = None\<rparr>]"
    let ?results = "results(key \<mapsto> length reqs)"
    from Cons.IH [OF True, of ?reqs ?results] obtain j where "j < length keys" "keys ! j = k"
      "snd (storage_loop account bns keys ?reqs ?results) k = Some (length ?reqs + j)"
      by blast
    then show ?thesis by (intro exI[of _ "Suc j"]) simp
  next
    case False
    with Cons.prems have "k = key" by simp
    with False show ?thesis
      by (intro exI[of _ 0]) (simp add: storage_loop_other)
  qed
qed

lemma storage_loop_distinct:
  "distinct keys \<Longrightarrow> j < length keys \<Longrightarrow>
   snd (storage_loop account bns keys reqs results) (keys ! j) = Some (length reqs + j)"
proof (induction keys arbitrary: reqs results j)
  case Nil
  then show ?case by simp
next
  case (Cons key keys)
  show ?case
  proof (cases j)
    case 0
    with Cons.prems show ?thesis by (simp add: storage_loop_other)
  next
    case (Suc j')
    with Cons.prems have "distinct keys" "j' < length keys" by simp_all
    from Cons.IH [OF this] show ?thesis using Suc by simp
  qed
qed

text \<open>The scan for the first element error.\<close>

lemma first_error_None:
  "(first_error i reqs = None) = (\<forall>b\<in>set reqs. Error b = None)"
  by (induction reqs arbitrary: i) (auto split: option.splits)

lemma first_error_Some:
  "first_error i reqs = Some (j, e) \<Longrightarrow>
   i \<le> j \<and> j - i < length reqs \<and> Error (reqs ! (j - i)) = Some e
   \<and> (\<forall>k<j - i. Error (reqs ! k) = None)"
proof (induction reqs arbitrary: i)
  case Nil
  then show ?case by simp
next
  case (Cons req reqs)
  show ?case
  proof (cases "Error req")
    case None
    with Cons.prems have "first_error (Suc i) reqs = Some (j, e)" by simp
    from Cons.IH [OF this] have IH: "Suc i \<le> j" "j - Suc i < length reqs"
      "Error (reqs ! (j - Suc i)) = Some e" "\<forall>k<j - Suc i. Error (reqs ! k) = None"
      by simp_all
    then have "j - i = Suc (j - Suc i)" by simp
    with IH None show ?thesis by (auto simp: nth_Cons split: nat.splits)
  next
    case (Some e')
    with Cons.prems show ?thesis by simp
  qed
qed

text \<open>What the batch call leaves in each element.\<close>

lemma BatchCallContext_filled:
  assumes "BatchReply env (map (\<lambda>b. (Method b, Args b)) reqs) = (err, filled)"
  shows "fst (BatchCallContext env reqs) = err"
    and "length (snd (BatchCallContext env reqs)) = length reqs"
    and "p < length reqs \<Longrightarrow> Result (snd (BatchCallContext env reqs) ! p) = fst (filled p)"
    and "p < length reqs \<Longrightarrow> Error (snd (BatchCallContext env reqs) ! p) = snd (filled p)"
  using assms by (simp_all add: BatchCallContext_def nth_enumerate_eq)

text \<open>
  C4, as stated, fails: with one key whose element of the batch carries an error, while
  the batch call itself succeeds, \<open>StorageAtKeys\<close> returns an error and no mapping.
\<close>

theorem StorageAtKeys_element_error_counterexample:
  "fst (BatchReply (example_eth example_child)
          [(''eth_getStorageAt'', [GAddress 1, GHash 4, GString ''latest''])]) = None
   \<and> StorageAtKeys (example_eth example_child) 1 [4] None =
       (Inl (ErrStorageAtIndex (LibError ''element error'') 0),
        [EthBatchCall [(''eth_getStorageAt'', [GAddress 1, GHash 4, GString ''latest''])]])"
  by (simp add: StorageAtKeys_def BatchCallContext_def example_eth_def Let_def)

text \<open>
  C4, amended: for every list of N storage keys, when the batch call fails
  \<open>StorageAtKeys\<close> returns that error; when the batch call succeeds and some element
  carries an error, it returns an error wrapping the error of the first such element
  with its index, and no mapping; when no element carries an error it returns a mapping
  whose keys are exactly the input keys, each bound to the value fetched by a request
  for that key, and with distinct input keys the mapping has exactly N entries, the
  key at each index bound to the value fetched at that index.
\<close>

theorem StorageAtKeys_outcomes:
  assumes reply: "BatchReply env
            (map (\<lambda>key. (''eth_getStorageAt'',
                    [GAddress account, GHash key,
                     GString (case blockNumber of None \<Rightarrow> ''latest'' | Some n \<Rightarrow> EncodeBig n)]))
               keys) = (err, filled)"
  shows "(\<forall>e. err = Some e \<longrightarrow> fst (StorageAtKeys env account keys blockNumber) = Inl e)
   \<and> (err = None \<and> (\<exists>i<length keys. snd (filled i) \<noteq> None) \<longrightarrow>
        (\<exists>i e. i < length keys \<and> snd (filled i) = Some e \<and> (\<forall>j<i. snd (filled j) = None)
           \<and> fst (StorageAtKeys env account keys blockNumber) = Inl (ErrStorageAtIndex e i)))
   \<and> (err = None \<and> (\<forall>i<length keys. snd (filled i) = None) \<longrightarrow>
        (\<exists>m. fst (StorageAtKeys env account keys blockNumber) = Inr m
           \<and> dom m = set keys
           \<and> (\<forall>k\<in>set keys. \<exists>j<length keys. keys ! j = k \<and> m k = Some (fst (filled j)))
           \<and> (distinct keys \<longrightarrow>
                card (dom m) = length keys
                \<and> (\<forall>j<length keys. m (keys ! j) = Some (fst (filled j))))))"
proof -
  define bns where
    "bns = (case blockNumber of None \<Rightarrow> ''latest'' | Some n \<Rightarrow> EncodeBig n)"
  define reqs where "reqs = fst (storage_loop account bns keys [] Map.empty)"
  define results where "results = snd (storage_loop account bns keys [] Map.empty)"
  define reqs' where "reqs' = snd (BatchCallContext env reqs)"
  define m where
    "m = (\<lambda>key. case results key of None \<Rightarrow> None | Some p \<Rightarrow> Some (Result (reqs' ! p)))"
  have len: "length reqs = length keys"
    by (simp add: reqs_def storage_loop_reqs)
  have calls: "BatchReply env (map (\<lambda>b. (Method b, Args b)) reqs) = (err, filled)"
    using reply by (simp add: reqs_def storage_loop_reqs bns_def comp_def)
  note filled = BatchCallContext_filled [OF calls]
  have len': "length reqs' = length keys"
    using filled(2) len by (simp add: reqs'_def)
  have res: "\<And>p. p < length keys \<Longrightarrow> Result (reqs' ! p) = fst (filled p)"
    using filled(3) len by (simp add: reqs'_def)
  have errs: "\<And>p. p < length keys \<Longrightarrow> Error (reqs' ! p) = snd (filled p)"
    using filled(4) len by (simp add: reqs'_def)
  have sl: "storage_loop account bns keys [] Map.empty = (reqs, results)"
    by (simp add: reqs_def results_def)
  have bc: "BatchCallContext env reqs = (err, reqs')"
    using filled(1) by (simp add: reqs'_def prod_eq_iff)
  have unfold: "fst (StorageAtKeys env account keys blockNumber) =
      (case err of
         Some e \<Rightarrow> Inl e
       | None \<Rightarrow> (case first_error 0 reqs' of
                    Some (i, e) \<Rightarrow> Inl (ErrStorageAtIndex e i)
                  | None \<Rightarrow> Inr m))"
    unfolding StorageAtKeys_def Let_def bns_def [symmetric]
    by (simp only: sl prod.case bc, simp add: m_def split: option.splits)
  have part1: "\<forall>e. err = Some e \<longrightarrow> fst (StorageAtKeys env account keys blockNumber) = Inl e"
    by (simp add: unfold)
  have part2: "\<exists>i e. i < length keys \<and> snd (filled i) = Some e \<and> (\<forall>j<i. snd (filled j) = None)
           \<and> fst (StorageAtKeys env account keys blockNumber) = Inl (ErrStorageAtIndex e i)"
    if ok: "err = None" and bad: "\<exists>i<length keys. snd (filled i) \<noteq> None"
  proof -
    from bad obtain i where i: "i < length keys" "snd (filled i) \<noteq> None" by blast
    then have "Error (reqs' ! i) \<noteq> None" by (simp add: errs)
    moreover have "reqs' ! i \<in> set reqs'" using i len' by simp
    ultimately have "\<not> (\<forall>b\<in>set reqs'. Error b = None)" by auto
    then have "first_error 0 reqs' \<noteq> None"
      by (simp add: first_error_None)
    then obtain j e where fe: "first_error 0 reqs' = Some (j, e)" by auto
    from first_error_Some [OF fe] have j: "j < length keys" "Error (reqs' ! j) = Some e"
      "\<forall>k<j. Error (reqs' ! k) = None"
      using len' by simp_all
    have "snd (filled j) = Some e" using j by (simp add: errs [symmetric])
    moreover have "\<forall>k<j. snd (filled k) = None"
      using j by (simp add: errs [symmetric])
    moreover have "fst (StorageAtKeys env account keys blockNumber) = Inl (ErrStorageAtIndex e j)"
      by (simp add: unfold ok fe)
    ultimately show ?thesis using j(1) by blast
  qed
  have part3: "\<exists>m. fst (StorageAtKeys env account keys blockNumber) = Inr m
           \<and> dom m = set keys
           \<and> (\<forall>k\<in>set keys. \<exists>j<length keys. keys ! j = k \<and> m k = Some (fst (filled j)))
           \<and> (distinct keys \<longrightarrow>
                card (dom m) = length keys
                \<and> (\<forall>j<length keys. m (keys ! j) = Some (fst (filled j))))"
    if ok: "err = None" and good: "\<forall>i<length keys. snd (filled i) = None"
  proof -
    have "\<forall>b\<in>set reqs'. Error b = None"
      using good errs len' by (auto simp: in_set_conv_nth)
    then have fe: "first_error 0 reqs' = None" by (simp add: first_error_None)
    have r: "fst (StorageAtKeys env account keys blockNumber) = Inr m"
      by (simp add: unfold ok fe)
    have "dom results = set keys" by (simp add: results_def storage_loop_dom)
    then have d: "dom m = set keys"
      by (auto simp: m_def dom_def split: option.splits)
    have b: "\<exists>j<length keys. keys ! j = k \<and> m k = Some (fst (filled j))" if "k \<in> set keys" for k
    proof -
      from storage_loop_bound [OF that, of account bns "[]" Map.empty]
      obtain j where "j < length keys" "keys ! j = k" "results k = Some j"
        by (auto simp: results_def)
      then show ?thesis by (auto simp: m_def res)
    qed
    have c: "card (dom m) = length keys" if "distinct keys"
      using that d by (simp add: distinct_card)
    have e: "m (keys ! j) = Some (fst (filled j))" if "distinct keys" "j < length keys" for j
      using storage_loop_distinct [OF that, of account bns "[]" Map.empty] that
      by (simp add: m_def results_def [symmetric] res)
    from r d b c e show ?thesis by blast
  qed
  from part1 part2 part3 show ?thesis by blast
qed

theorem StorageAtKeys_outcomes_witness:
  "BatchReply example_eth_ok
      (map (\<lambda>key. (''eth_getStorageAt'',
              [GAddress 1, GHash key,
               GString (case None of None \<Rightarrow> ''latest'' | Some n \<Rightarrow> EncodeBig n)])) [4, 6])
     = (None, \<lambda>i. (of_nat i + 100, None))
   \<and> distinct [4 :: hash, 6]
   \<and> fst (StorageAtKeys example_eth_ok 1 [4, 6] None) = Inr [4 \<mapsto> 100, 6 \<mapsto> 101]
   \<and> BatchReply (example_eth example_child)
      (map (\<lambda>key. (''eth_getStorageAt'',
              [GAddress 1, GHash key,
               GString (case None of None \<Rightarrow> ''latest'' | Some n \<Rightarrow> EncodeBig n)])) [4, 6])
     = (None, \<lambda>i. (0, Some (LibError ''element error'')))
   \<and> fst (StorageAtKeys (example_eth example_child) 1 [4, 6] None)
       = Inl (ErrStorageAtIndex (LibError ''element error'') 0)"
proof -
  have reply: "BatchReply example_eth_ok
      (map (\<lambda>key. (''eth_getStorageAt'',
              [GAddress 1, GHash key,
               GString (case None of None \<Rightarrow> ''latest'' | Some n \<Rightarrow> EncodeBig n)])) [4, 6])
     = (None, \<lambda>i. (of_nat i + 100, None))"
    by (simp add: example_eth_ok_def)
  have d: "distinct [4 :: hash, 6]" by simp
  from StorageAtKeys_outcomes [OF reply] d
  obtain m where m: "fst (StorageAtKeys example_eth_ok 1 [4, 6] None) = Inr m"
    "dom m = set [4, 6]"
    "\<forall>j<length [4 :: hash, 6]. m ([4, 6] ! j) = Some (fst (of_nat j + 100 :: hash, None :: error option))"
    by auto
  from m(3) [rule_format, of 0] have m4: "m 4 = Some 100" by simp
  from m(3) [rule_format, of 1] have m6: "m 6 = Some 101" by simp
  have "m k = [4 \<mapsto> 100, 6 \<mapsto> 101] k" for k
  proof (cases "k \<in> dom m")
    case True
    with m(2) m4 m6 show ?thesis by auto
  next
    case False
    with m(2) show ?thesis by (auto simp: dom_def)
  qed
  then have ok: "fst (StorageAtKeys example_eth_ok 1 [4, 6] None) = Inr [4 \<mapsto> 100, 6 \<mapsto> 101]"
    using m(1) by (simp add: fun_eq_iff)
  have reply': "BatchReply (example_eth example_child)
      (map (\<lambda>key. (''eth_getStorageAt'',
              [GAddress 1, GHash key,
               GString (case None of None \<Rightarrow> ''latest'' | Some n \<Rightarrow> EncodeBig n)])) [4, 6])
     = (None, \<lambda>i. (0, Some (LibError ''element error'')))"
    by (simp add: example_eth_def)
  from StorageAtKeys_outcomes [OF reply']
  obtain i e where ie: "(\<forall>j<i. snd (0 :: hash, Some (LibError ''element error'')) = None)"
    "snd (0 :: hash, Some (LibError ''element error'')) = Some e"
    "fst (StorageAtKeys (example_eth example_child) 1 [4, 6] None) = Inl (ErrStorageAtIndex e i)"
    by auto
  from ie(1) have "i = 0" by auto
  with ie(2,3) have bad: "fst (StorageAtKeys (example_eth example_child) 1 [4, 6] None)
       = Inl (ErrStorageAtIndex (LibError ''element error'') 0)"
    by simp
  from reply d ok reply' bad show ?thesis by blast
qed

text \<open>
  C5 fails on the code: one transaction is sent, the batch call succeeds and the
  element of the transaction carries an error; \<open>SendTransactions\<close> returns the nil
  slice, so the error of the element does not reach the caller.
\<close>

theorem SendTransactions_drops_element_errors:
  "MarshalBinary (example_eth example_child) 7 = Inr [7]
   \<and> BatchReply (example_eth example_child)
        [(''eth_sendRawTransaction'', [GString ''0x07''])]
       = (None, \<lambda>i. (0, Some (LibError ''element error'')))
   \<and> SendTransactions (example_eth example_child) [7] =
       ([], [EthBatchCall [(''eth_sendRawTransaction'', [GString ''0x07''])]])"
  by (simp add: SendTransactions_def BatchCallContext_def example_eth_def Let_def
        Encode_def hex_digit_def)

end
